theory Spec2Isabelle
  imports Complex_Main "HOL-Library.AList" "HOL-Library.Sublist"
begin

section \<open>Python values\<close>

text \<open>
  The server receives the arguments of a tool call as a Python dict decoded from JSON, so
  a value is \<open>None\<close>, a bool, an int, a float, a str, a list or a dict with str keys.
  Python ints are unbounded (\<open>int\<close>). A float is an IEEE double: a finite value (a
  rational), the negative zero, an infinity or a NaN. A str is a \<open>string\<close>; a character
  outside ASCII stands as the bytes of its UTF-8 encoding.
\<close>

datatype pyfloat = Finite rat | NegZero | PosInf | NegInf | NaN

datatype pyval =
    PNone
  | PBool bool
  | PInt int
  | PFloat pyfloat
  | PStr string
  | PList "pyval list"
  | PDict "(string \<times> pyval) list"

text \<open>
  A dict is written as an association list and read through \<open>map_of\<close>: the first
  binding of a key is the entry of the dict. \<open>items\<close> lists every key once, with that
  entry.
\<close>

type_synonym pydict = "(string \<times> pyval) list"

definition has_key :: "('k \<times> 'v) list \<Rightarrow> 'k \<Rightarrow> bool" where
  \<comment> \<open>\<open>k in d\<close>\<close>
  "has_key d k = (map_of d k \<noteq> None)"

definition dict_get :: "('k \<times> 'v) list \<Rightarrow> 'k \<Rightarrow> 'v \<Rightarrow> 'v" where
  \<comment> \<open>\<open>d.get(k, default)\<close>\<close>
  "dict_get d k dflt = (case map_of d k of Some v \<Rightarrow> v | None \<Rightarrow> dflt)"

definition items :: "('k \<times> 'v) list \<Rightarrow> ('k \<times> 'v) list" where
  \<comment> \<open>\<open>d.items()\<close>\<close>
  "items d = AList.clearjunk d"

text \<open>\<open>isinstance\<close>: \<open>bool\<close> is a subclass of \<open>int\<close> in Python.\<close>

fun isinstance_str :: "pyval \<Rightarrow> bool" where
  "isinstance_str (PStr s) = True"
| "isinstance_str v = False"

fun isinstance_int_float :: "pyval \<Rightarrow> bool" where
  "isinstance_int_float (PInt n) = True"
| "isinstance_int_float (PBool b) = True"
| "isinstance_int_float (PFloat x) = True"
| "isinstance_int_float v = False"

fun isinstance_bool :: "pyval \<Rightarrow> bool" where
  "isinstance_bool (PBool b) = True"
| "isinstance_bool v = False"

section \<open>Exceptions\<close>

datatype exc_class = ValueError | TypeError | OverflowError | ZeroDivisionError

datatype pyexc = PyExc exc_class string

fun exc_class_of :: "pyexc \<Rightarrow> exc_class" where
  "exc_class_of (PyExc c m) = c"

fun exc_str :: "pyexc \<Rightarrow> string" where
  \<comment> \<open>\<open>str(e)\<close>\<close>
  "exc_str (PyExc c m) = m"

section \<open>The tool catalog (tools.py)\<close>

record property =
  ptype :: string
  pdescription :: string
  penum :: "string list option"
  pdefault :: "pyval option"

record input_schema =
  stype :: string
  properties :: "(string \<times> property) list"
  required :: "string list"

record tool =
  name :: string
  description :: string
  inputSchema :: input_schema

definition get_all_tools :: "tool list" where
  "get_all_tools =
    [ \<lparr> name = ''hello_world'',
        description = ''A simple greeting tool that returns a hello message'',
        inputSchema = \<lparr> stype = ''object'',
          properties =
            [ (''name'', \<lparr> ptype = ''string'', pdescription = ''Name to greet (optional)'',
                 penum = None, pdefault = Some (PStr ''World'') \<rparr>) ],
          required = [] \<rparr> \<rparr>,
      \<lparr> name = ''echo'',
        description = ''Echo back the input message with optional prefix'',
        inputSchema = \<lparr> stype = ''object'',
          properties =
            [ (''message'', \<lparr> ptype = ''string'', pdescription = ''Message to echo back'',
                 penum = None, pdefault = None \<rparr>),
              (''prefix'', \<lparr> ptype = ''string'',
                 pdescription = ''Optional prefix to add to the message'',
                 penum = None, pdefault = Some (PStr ''Echo: '') \<rparr>) ],
          required = [''message''] \<rparr> \<rparr>,
      \<lparr> name = ''get_time'',
        description = ''Get current time in various formats'',
        inputSchema = \<lparr> stype = ''object'',
          properties =
            [ (''format'', \<lparr> ptype = ''string'',
                 pdescription =
                   ''Time format: '' @ [CHR 0x27] @ ''iso'' @ [CHR 0x27] @ '', '' @
                   [CHR 0x27] @ ''readable'' @ [CHR 0x27] @ '', or '' @
                   [CHR 0x27] @ ''timestamp'' @ [CHR 0x27],
                 penum = Some [''iso'', ''readable'', ''timestamp''],
                 pdefault = Some (PStr ''readable'') \<rparr>),
              (''timezone'', \<lparr> ptype = ''string'',
                 pdescription =
                   ''Timezone (e.g., '' @ [CHR 0x27] @ ''UTC'' @ [CHR 0x27] @ '', '' @
                   [CHR 0x27] @ ''US/Eastern'' @ [CHR 0x27] @ '')'',
                 penum = None, pdefault = Some (PStr ''local'') \<rparr>) ],
          required = [] \<rparr> \<rparr>,
      \<lparr> name = ''math_add'',
        description = ''Add two numbers together'',
        inputSchema = \<lparr> stype = ''object'',
          properties =
            [ (''a'', \<lparr> ptype = ''number'', pdescription = ''First number'',
                 penum = None, pdefault = None \<rparr>),
              (''b'', \<lparr> ptype = ''number'', pdescription = ''Second number'',
                 penum = None, pdefault = None \<rparr>) ],
          required = [''a'', ''b''] \<rparr> \<rparr>,
      \<lparr> name = ''debug_info'',
        description = ''Get debug information about the MCP server'',
        inputSchema = \<lparr> stype = ''object'',
          properties =
            [ (''include_tools'', \<lparr> ptype = ''boolean'',
                 pdescription = ''Include tool information in response'',
                 penum = None, pdefault = Some (PBool True) \<rparr>),
              (''include_stats'', \<lparr> ptype = ''boolean'',
                 pdescription = ''Include server statistics'',
                 penum = None, pdefault = Some (PBool True) \<rparr>) ],
          required = [] \<rparr> \<rparr> ]"

text \<open>\<open>get_tool_by_name\<close>: the loop over the catalog, then the \<open>raise\<close>.\<close>

fun find_tool :: "tool list \<Rightarrow> string \<Rightarrow> pyexc + tool" where
  "find_tool [] n =
     Inl (PyExc ValueError (''Tool '' @ [CHR 0x27] @ n @ [CHR 0x27] @ '' not found''))"
| "find_tool (t # ts) n = (if name t = n then Inr t else find_tool ts n)"

definition get_tool_by_name :: "string \<Rightarrow> pyexc + tool" where
  "get_tool_by_name n = find_tool get_all_tools n"

text \<open>
  \<open>validate_tool_arguments\<close>. Both loops return \<open>False\<close> from inside; each is a
  recursive function that is \<open>True\<close> when the loop runs to its end. The whole body
  stands in a \<open>try\<close> whose handler returns \<open>False\<close> for every exception.
\<close>

fun check_required :: "string list \<Rightarrow> pydict \<Rightarrow> bool" where
  "check_required [] arguments = True"
| "check_required (field # rest) arguments =
     (if \<not> has_key arguments field then False else check_required rest arguments)"

definition type_mismatch :: "string \<Rightarrow> pyval \<Rightarrow> bool" where
  \<comment> \<open>the \<open>if\<close>/\<open>elif\<close> chain that returns \<open>False\<close>\<close>
  "type_mismatch expected_type v =
     (if expected_type = ''string'' \<and> \<not> isinstance_str v then True
      else if expected_type = ''number'' \<and> \<not> isinstance_int_float v then True
      else if expected_type = ''boolean'' \<and> \<not> isinstance_bool v then True
      else False)"

fun check_types :: "(string \<times> property) list \<Rightarrow> (string \<times> pyval) list \<Rightarrow> bool" where
  "check_types props [] = True"
| "check_types props ((field, v) # rest) =
     (case map_of props field of
        Some p \<Rightarrow> (if type_mismatch (ptype p) v then False else check_types props rest)
      | None \<Rightarrow> check_types props rest)"

definition validate_tool_arguments :: "string \<Rightarrow> pydict \<Rightarrow> bool" where
  "validate_tool_arguments tool_name arguments =
     (case get_tool_by_name tool_name of
        Inl e \<Rightarrow> False
      | Inr t \<Rightarrow>
          (let schema = inputSchema t in
           if \<not> check_required (required schema) arguments then False
           else check_types (properties schema) (items arguments)))"

section \<open>The Python runtime\<close>

text \<open>
  The handlers call builtins of Python and of its standard library: \<open>float()\<close>, float
  addition and division, string formatting, \<open>json.dumps\<close>, the methods of \<open>datetime\<close>.
  Their results depend on IEEE rounding, on the shortest-repr algorithm and on the
  calendar, none of which is code of this server. They are the fields of a record that
  every handler takes as its first argument; the theorems hold for every such record.

  A \<open>datetime\<close> is naive and counts microseconds, and so does a \<open>timedelta\<close>; their
  difference is exact. \<open>quotient\<close> is \<open>x / y\<close> for a divisor that is not zero; \<open>Inl\<close>
  is the message of the \<open>OverflowError\<close> that converting a huge int to a float raises.
  \<open>format_value\<close> is \<open>format(v, '')\<close> for a value that is not a str.
\<close>

type_synonym datetime = int
type_synonym timedelta = int

datatype pynum = NInt int | NFloat pyfloat

record runtime =
  py_float :: "pyval \<Rightarrow> pyexc + pyfloat"
  float_add :: "pyfloat \<Rightarrow> pyfloat \<Rightarrow> pyfloat"
  quotient :: "pynum \<Rightarrow> pynum \<Rightarrow> string + pyfloat"
  format_value :: "pyval \<Rightarrow> string"
  json_dumps :: "pyval \<Rightarrow> string"
  isoformat :: "datetime \<Rightarrow> string"
  strftime :: "datetime \<Rightarrow> string \<Rightarrow> string"
  timestamp :: "datetime \<Rightarrow> pyfloat"
  total_seconds :: "timedelta \<Rightarrow> pyfloat"
  python_version :: string

definition py_str :: "runtime \<Rightarrow> pyval \<Rightarrow> string" where
  \<comment> \<open>a value inside an f-string: a str stands as it is\<close>
  "py_str B v = (case v of PStr s \<Rightarrow> s | _ \<Rightarrow> format_value B v)"

fun float_is_zero :: "pyfloat \<Rightarrow> bool" where
  "float_is_zero (Finite q) = (q = 0)"
| "float_is_zero NegZero = True"
| "float_is_zero x = False"

fun py_truthy :: "pyval \<Rightarrow> bool" where
  "py_truthy PNone = False"
| "py_truthy (PBool b) = b"
| "py_truthy (PInt n) = (n \<noteq> 0)"
| "py_truthy (PFloat x) = (\<not> float_is_zero x)"
| "py_truthy (PStr s) = (s \<noteq> [])"
| "py_truthy (PList xs) = (xs \<noteq> [])"
| "py_truthy (PDict d) = (d \<noteq> [])"

fun num_is_zero :: "pynum \<Rightarrow> bool" where
  "num_is_zero (NInt n) = (n = 0)"
| "num_is_zero (NFloat x) = float_is_zero x"

fun float_gt_int :: "pyfloat \<Rightarrow> int \<Rightarrow> bool" where
  \<comment> \<open>\<open>x > n\<close>: Python compares a float with an int exactly; a NaN is greater than nothing\<close>
  "float_gt_int (Finite q) n = (of_int n < q)"
| "float_gt_int NegZero n = (n < 0)"
| "float_gt_int PosInf n = True"
| "float_gt_int NegInf n = False"
| "float_gt_int NaN n = False"

definition py_max :: "int \<Rightarrow> pyfloat \<Rightarrow> pynum" where
  \<comment> \<open>\<open>max(n, x)\<close> keeps its first argument unless the second is greater\<close>
  "py_max n x = (if float_gt_int x n then NFloat x else NInt n)"

definition py_truediv :: "runtime \<Rightarrow> pynum \<Rightarrow> pynum \<Rightarrow> pyexc + pyfloat" where
  \<comment> \<open>\<open>x / y\<close>\<close>
  "py_truediv B x y =
     (if num_is_zero y then Inl (PyExc ZeroDivisionError ''division by zero'')
      else case quotient B x y of
             Inl msg \<Rightarrow> Inl (PyExc OverflowError msg)
           | Inr q \<Rightarrow> Inr q)"

section \<open>The server state (server.py)\<close>

record server =
  server_name :: string
  start_time :: datetime
  request_count :: int

definition init :: "string \<Rightarrow> datetime \<Rightarrow> server" where
  \<comment> \<open>\<open>SimpleMCPServer.__init__\<close>; the second argument is the clock at construction\<close>
  "init nm now = \<lparr> server_name = nm, start_time = now, request_count = 0 \<rparr>"

section \<open>The handlers (handlers.py)\<close>

text \<open>
  A handler returns its text (\<open>Inr\<close>) or raises (\<open>Inl\<close>). \<open>clk i\<close> is what the
  \<open>i\<close>-th call of \<open>datetime.now()\<close> inside the handler returns. Logging is left out.
\<close>

definition handle_hello_world :: "runtime \<Rightarrow> (nat \<Rightarrow> datetime) \<Rightarrow> pydict \<Rightarrow> pyexc + string" where
  "handle_hello_world B clk arguments =
     (let nm = dict_get arguments ''name'' (PStr ''World'');
          greeting = ''Hello, '' @ py_str B nm @ ''! '' @ [CHR 0xF0, CHR 0x9F, CHR 0x91, CHR 0x8B];
          stamp = isoformat B (clk 0);
          response = greeting @ [CHR 0x0A, CHR 0x0A] @ ''Generated at: '' @ stamp
      in Inr response)"

definition handle_echo :: "runtime \<Rightarrow> pydict \<Rightarrow> pyexc + string" where
  "handle_echo B arguments =
     (case map_of arguments ''message'' of
        None \<Rightarrow> Inl (PyExc ValueError ''Missing required parameter: message'')
      | Some message \<Rightarrow>
          (let prefix = dict_get arguments ''prefix'' (PStr ''Echo: '');
               response = py_str B prefix @ py_str B message
           in Inr response))"

definition format_time :: "runtime \<Rightarrow> datetime \<Rightarrow> pyval \<Rightarrow> pyexc + string" where
  \<comment> \<open>the \<open>if\<close>/\<open>elif\<close> chain of \<open>handle_get_time\<close> that sets \<open>time_str\<close> or raises\<close>
  "format_time B now time_format =
     (if time_format = PStr ''iso'' then Inr (isoformat B now)
      else if time_format = PStr ''timestamp'' then Inr (py_str B (PFloat (timestamp B now)))
      else if time_format = PStr ''readable'' then Inr (strftime B now ''%Y-%m-%d %H:%M:%S'')
      else Inl (PyExc ValueError (''Unknown time format: '' @ py_str B time_format)))"

definition handle_get_time :: "runtime \<Rightarrow> (nat \<Rightarrow> datetime) \<Rightarrow> pydict \<Rightarrow> pyexc + string" where
  "handle_get_time B clk arguments =
     (let time_format = dict_get arguments ''format'' (PStr ''readable'');
          timezone = dict_get arguments ''timezone'' (PStr ''local'');
          now = clk 0
      in case format_time B now time_format of
           Inl e \<Rightarrow> Inl e
         | Inr time_str \<Rightarrow>
             (let response = ''Current time: '' @ time_str
              in if timezone \<noteq> PStr ''local''
                 then Inr (response @ '' (requested timezone: '' @ py_str B timezone @ '')'')
                 else Inr response))"

definition convert_operands :: "runtime \<Rightarrow> pyval \<Rightarrow> pyval \<Rightarrow> pyexc + pyfloat \<times> pyfloat" where
  \<comment> \<open>the body of the \<open>try\<close> of \<open>handle_math_add\<close>\<close>
  "convert_operands B va vb =
     (case py_float B va of
        Inl e \<Rightarrow> Inl e
      | Inr a \<Rightarrow> (case py_float B vb of Inl e \<Rightarrow> Inl e | Inr b \<Rightarrow> Inr (a, b)))"

definition handle_math_add :: "runtime \<Rightarrow> pydict \<Rightarrow> pyexc + string" where
  "handle_math_add B arguments =
     (case (map_of arguments ''a'', map_of arguments ''b'') of
        (Some va, Some vb) \<Rightarrow>
          (case convert_operands B va vb of
             Inl e \<Rightarrow>
               (if exc_class_of e = ValueError \<or> exc_class_of e = TypeError
                then Inl (PyExc ValueError (''Invalid number format: '' @ exc_str e))
                else Inl e)
           | Inr (a, b) \<Rightarrow>
               (let result = float_add B a b;
                    response = py_str B (PFloat a) @ '' + '' @ py_str B (PFloat b) @ '' = '' @
                               py_str B (PFloat result)
                in Inr response))
      | _ \<Rightarrow> Inl (PyExc ValueError ''Missing required parameters: a and b''))"

definition tool_summary :: "tool \<Rightarrow> pyval" where
  "tool_summary t =
     PDict [(''name'', PStr (name t)), (''description'', PStr (description t)),
            (''required_params'', PList (map PStr (required (inputSchema t))))]"

definition avg_requests_per_minute :: "runtime \<Rightarrow> int \<Rightarrow> pyfloat \<Rightarrow> pyexc + pyfloat" where
  \<comment> \<open>\<open>server.request_count / max(1, debug_info["uptime_seconds"] / 60)\<close>\<close>
  "avg_requests_per_minute B count uptime_seconds =
     (case py_truediv B (NFloat uptime_seconds) (NInt 60) of
        Inl e \<Rightarrow> Inl e
      | Inr minutes \<Rightarrow> py_truediv B (NInt count) (py_max 1 minutes))"

definition build_debug_info ::
  "runtime \<Rightarrow> (nat \<Rightarrow> datetime) \<Rightarrow> pydict \<Rightarrow> server \<Rightarrow> pyexc + pydict" where
  \<comment> \<open>\<open>handle_debug_info\<close> up to the dict \<open>debug_info\<close> that it formats\<close>
  "build_debug_info B clk arguments srv =
     (let include_tools = dict_get arguments ''include_tools'' (PBool True);
          include_stats = dict_get arguments ''include_stats'' (PBool True);
          uptime_seconds = total_seconds B (clk 0 - start_time srv);
          debug_info =
            [(''server_name'', PStr (server_name srv)),
             (''start_time'', PStr (isoformat B (start_time srv))),
             (''uptime_seconds'', PFloat uptime_seconds),
             (''request_count'', PInt (request_count srv)),
             (''python_version'', PStr (python_version B)),
             (''timestamp'', PStr (isoformat B (clk 1)))];
          debug_info =
            (if py_truthy include_tools
             then debug_info @ [(''tools'', PList (map tool_summary get_all_tools))]
             else debug_info)
      in if py_truthy include_stats
         then (let tools_available =
                     (case dict_get debug_info ''tools'' (PList []) of
                        PList ts \<Rightarrow> int (length ts) | _ \<Rightarrow> 0)
               in case avg_requests_per_minute B (request_count srv) uptime_seconds of
                    Inl e \<Rightarrow> Inl e
                  | Inr avg \<Rightarrow>
                      Inr (debug_info @
                           [(''statistics'',
                             PDict [(''tools_available'', PInt tools_available),
                                    (''avg_requests_per_minute'', PFloat avg)])]))
         else Inr debug_info)"

definition handle_debug_info ::
  "runtime \<Rightarrow> (nat \<Rightarrow> datetime) \<Rightarrow> pydict \<Rightarrow> server \<Rightarrow> pyexc + string" where
  "handle_debug_info B clk arguments srv =
     (case build_debug_info B clk arguments srv of
        Inl e \<Rightarrow> Inl e
      | Inr debug_info \<Rightarrow>
          (let response = [CHR 0xF0, CHR 0x9F, CHR 0x94, CHR 0x8D] @
                          '' MCP Server Debug Information'' @ [CHR 0x0A, CHR 0x0A];
               response = response @ json_dumps B (PDict debug_info)
           in Inr response))"

section \<open>The protocol handlers (server.py)\<close>

datatype content = TextContent (content_type: string) (content_text: string)

typedecl prompt
typedecl prompt_result

text \<open>
  Every handler increments \<open>request_count\<close> first. It returns what it returns or raises,
  and the server state after it. The calls of the logger and of \<open>log_mcp_message\<close>,
  which write to the console and to the log files, are left out. Each of the five tool
  handlers returns a str, so of the three branches that bring the result of a tool into
  the response format, the one for a str is the one taken.
\<close>

definition handle_list_tools :: "server \<Rightarrow> (pyexc + tool list) \<times> server" where
  "handle_list_tools self =
     (let self = self\<lparr>request_count := request_count self + 1\<rparr>;
          tools = get_all_tools
      in (Inr tools, self))"

definition route_tool ::
  "runtime \<Rightarrow> (nat \<Rightarrow> datetime) \<Rightarrow> string \<Rightarrow> pydict \<Rightarrow> server \<Rightarrow> pyexc + string" where
  \<comment> \<open>the routing inside the \<open>try\<close> of \<open>handle_call_tool\<close>\<close>
  "route_tool B clk nm arguments self =
     (if nm = ''hello_world'' then handle_hello_world B clk arguments
      else if nm = ''echo'' then handle_echo B arguments
      else if nm = ''get_time'' then handle_get_time B clk arguments
      else if nm = ''math_add'' then handle_math_add B arguments
      else if nm = ''debug_info'' then handle_debug_info B clk arguments self
      else (let error_msg = ''Unknown tool: '' @ nm in Inr error_msg))"

definition handle_call_tool ::
  "runtime \<Rightarrow> (nat \<Rightarrow> datetime) \<Rightarrow> string \<Rightarrow> pydict \<Rightarrow> server \<Rightarrow> (pyexc + content list) \<times> server" where
  "handle_call_tool B clk nm arguments self =
     (let self = self\<lparr>request_count := request_count self + 1\<rparr>
      in (case route_tool B clk nm arguments self of
            Inr result \<Rightarrow> Inr [TextContent ''text'' result]
          | Inl e \<Rightarrow>
              (let error_msg = ''Error executing tool '' @ nm @ '': '' @ exc_str e
               in Inr [TextContent ''text'' error_msg]),
          self))"

definition handle_list_prompts :: "server \<Rightarrow> (pyexc + prompt list) \<times> server" where
  "handle_list_prompts self =
     (let self = self\<lparr>request_count := request_count self + 1\<rparr> in (Inr [], self))"

definition handle_get_prompt :: "string \<Rightarrow> pydict \<Rightarrow> server \<Rightarrow> (pyexc + prompt_result) \<times> server" where
  "handle_get_prompt nm arguments self =
     (let self = self\<lparr>request_count := request_count self + 1\<rparr>
      in (Inl (PyExc ValueError (''No prompt named '' @ nm)), self))"

text \<open>
  The MCP library calls the handler registered for each request. A request comes with
  the clock its handler will read; \<open>after_request\<close> is the server state the handler
  leaves, \<open>run\<close> the state after a sequence of requests.
\<close>

datatype request =
    ListTools
  | CallTool string pydict
  | ListPrompts
  | GetPrompt string pydict

fun after_request :: "runtime \<Rightarrow> (nat \<Rightarrow> datetime) \<times> request \<Rightarrow> server \<Rightarrow> server" where
  "after_request B (clk, ListTools) self = snd (handle_list_tools self)"
| "after_request B (clk, CallTool nm arguments) self = snd (handle_call_tool B clk nm arguments self)"
| "after_request B (clk, ListPrompts) self = snd (handle_list_prompts self)"
| "after_request B (clk, GetPrompt nm arguments) self = snd (handle_get_prompt nm arguments self)"

fun run :: "runtime \<Rightarrow> ((nat \<Rightarrow> datetime) \<times> request) list \<Rightarrow> server \<Rightarrow> server" where
  "run B [] self = self"
| "run B (r # rs) self = run B rs (after_request B r self)"

section \<open>A runtime for the worked examples\<close>

text \<open>
  The examples below need one concrete runtime. This one answers as CPython does at the
  inputs the examples use (\<open>float(10)\<close>, \<open>10.0 + 5.0\<close>, \<open>str(15.0)\<close>, \<open>float('x')\<close>,
  \<open>float(10**400)\<close>);
  its clock methods return fixed texts. No theorem about the server depends on it.
\<close>

definition example_runtime :: runtime where
  "example_runtime =
     \<lparr> py_float = (\<lambda>v. case v of
           PInt n \<Rightarrow>
             (if \<bar>n\<bar> < 2 ^ 1024 then Inr (Finite (of_int n))
              else Inl (PyExc OverflowError ''int too large to convert to float''))
         | PFloat x \<Rightarrow> Inr x
         | PBool b \<Rightarrow> Inr (Finite (if b then 1 else 0))
         | PStr s \<Rightarrow> Inl (PyExc ValueError
             (''could not convert string to float: '' @ [CHR 0x27] @ s @ [CHR 0x27]))
         | _ \<Rightarrow> Inl (PyExc TypeError ''float() argument must be a string or a real number'')),
       float_add = (\<lambda>x y. case (x, y) of (Finite p, Finite q) \<Rightarrow> Finite (p + q) | _ \<Rightarrow> NaN),
       quotient = (\<lambda>x y. case (x, y) of
           (NInt n, NInt m) \<Rightarrow> Inr (Finite (of_int n / of_int m))
         | (NInt n, NFloat (Finite q)) \<Rightarrow> Inr (Finite (of_int n / q))
         | (NFloat (Finite p), NInt m) \<Rightarrow> Inr (Finite (p / of_int m))
         | _ \<Rightarrow> Inr NaN),
       format_value = (\<lambda>v. if v = PFloat (Finite 5) then ''5.0''
                           else if v = PFloat (Finite 10) then ''10.0''
                           else if v = PFloat (Finite 15) then ''15.0''
                           else ''?''),
       json_dumps = (\<lambda>v. ''{}''),
       isoformat = (\<lambda>t. ''2024-01-01T12:00:00''),
       strftime = (\<lambda>t f. ''2024-01-01 12:00:00''),
       timestamp = (\<lambda>t. Finite 1704110400),
       total_seconds = (\<lambda>d. Finite (of_int d / 1000000)),
       python_version = ''3.11.0'' \<rparr>"

definition example_clock :: "nat \<Rightarrow> datetime" where
  "example_clock i = 1704110400000000 + int i"

definition example_server :: server where
  "example_server = init ''simple-mcp-debug'' 1704110280000000"

section \<open>Facts about the catalog and the validator\<close>

lemma tool_names:
  "map name get_all_tools = [''hello_world'', ''echo'', ''get_time'', ''math_add'', ''debug_info'']"
  by (simp add: get_all_tools_def)

lemma find_tool_Inl:
  "n \<notin> set (map name ts) \<Longrightarrow>
   find_tool ts n = Inl (PyExc ValueError (''Tool '' @ [CHR 0x27] @ n @ [CHR 0x27] @ '' not found''))"
  by (induction ts) auto

lemma find_tool_Inr: "find_tool ts n = Inr t \<Longrightarrow> t \<in> set ts \<and> name t = n"
  by (induction ts) (auto split: if_splits)

lemma check_required_iff:
  "check_required fs arguments \<longleftrightarrow> (\<forall>f \<in> set fs. has_key arguments f)"
  by (induction fs) auto

lemma check_types_iff:
  "check_types props kvs \<longleftrightarrow>
     (\<forall>(k, v) \<in> set kvs. \<forall>p. map_of props k = Some p \<longrightarrow> \<not> type_mismatch (ptype p) v)"
  by (induction kvs) (auto split: option.splits if_splits)

lemma set_items: "set (items d) = {(k, v). map_of d k = Some v}"
  unfolding items_def using graph_map_of [of d] by (auto simp: Map.graph_def)

text \<open>
  What the validator decides: the tool exists, every required field is a key of the
  arguments, and no entry of the arguments that the schema declares mismatches its type.
\<close>

lemma validate_iff:
  "validate_tool_arguments nm arguments \<longleftrightarrow>
     (\<exists>t. get_tool_by_name nm = Inr t \<and>
          (\<forall>f \<in> set (required (inputSchema t)). has_key arguments f) \<and>
          (\<forall>k v p. map_of arguments k = Some v \<and> map_of (properties (inputSchema t)) k = Some p
                     \<longrightarrow> \<not> type_mismatch (ptype p) v))"
  by (cases "get_tool_by_name nm")
     (auto simp: validate_tool_arguments_def Let_def check_required_iff check_types_iff set_items)

lemma type_mismatch_cases:
  "type_mismatch ''string'' v \<longleftrightarrow> \<not> isinstance_str v"
  "type_mismatch ''number'' v \<longleftrightarrow> \<not> isinstance_int_float v"
  "type_mismatch ''boolean'' v \<longleftrightarrow> \<not> isinstance_bool v"
  by (simp_all add: type_mismatch_def)

lemma validate_echo_examples:
  "validate_tool_arguments ''echo'' [] = False"
  "validate_tool_arguments ''echo'' [(''message'', PStr ''hi'')] = True"
  by (simp_all add: validate_tool_arguments_def get_tool_by_name_def get_all_tools_def has_key_def
        items_def type_mismatch_def)

text \<open>
  C10. For a tool name absent from the catalog, \<open>get_tool_by_name\<close> raises the
  ValueError, and \<open>validate_tool_arguments\<close> absorbs it: it returns \<open>False\<close>, whatever
  the arguments.
\<close>

theorem validate_unknown_tool:
  "nm \<notin> set (map name get_all_tools) \<Longrightarrow>
     get_tool_by_name nm =
       Inl (PyExc ValueError (''Tool '' @ [CHR 0x27] @ nm @ [CHR 0x27] @ '' not found''))
     \<and> validate_tool_arguments nm arguments = False"
  by (simp add: validate_tool_arguments_def get_tool_by_name_def find_tool_Inl)

theorem validate_unknown_tool_witness:
  "''nonexistent_tool'' \<notin> set (map name get_all_tools)
   \<and> validate_tool_arguments ''nonexistent_tool'' [(''message'', PStr ''hi'')] = False"
  using validate_unknown_tool [of "''nonexistent_tool''" "[(''message'', PStr ''hi'')]"]
  by (simp add: tool_names)

text \<open>
  C3. The validator is to return \<open>False\<close> when a supplied field that the schema
  declares has a runtime type other than the declared one. \<open>math_add\<close> declares \<open>a\<close>
  a number; the boolean \<open>True\<close> is supplied for it, and the validator returns \<open>True\<close>:
  \<open>isinstance(True, (int, float))\<close> holds in Python, \<open>bool\<close> being a subclass of
  \<open>int\<close>.
\<close>

theorem validate_number_accepts_bool:
  "validate_tool_arguments ''math_add'' [(''a'', PBool True), (''b'', PInt 1)] = True"
  by (simp add: validate_tool_arguments_def get_tool_by_name_def get_all_tools_def has_key_def
        items_def type_mismatch_def)

section \<open>Facts about the protocol handlers\<close>

lemma after_request_eq:
  "after_request B r self = self\<lparr>request_count := request_count self + 1\<rparr>"
proof (cases r)
  case (Pair clk req)
  then show ?thesis
    by (cases req)
       (simp_all add: handle_list_tools_def handle_call_tool_def handle_list_prompts_def
          handle_get_prompt_def Let_def)
qed

lemma run_eq:
  "run B rs self = self\<lparr>request_count := request_count self + int (length rs)\<rparr>"
  by (induction rs arbitrary: self) (simp_all add: after_request_eq)

text \<open>
  C9. Every inbound operation (\<open>list_tools\<close>, \<open>call_tool\<close> with any name and
  arguments, \<open>list_prompts\<close>, \<open>get_prompt\<close>) leaves the server state it found with
  \<open>request_count\<close> incremented by one and nothing else changed. After any sequence of
  requests the counter has grown by the length of the sequence, so it never decreases,
  and \<open>server_name\<close> and \<open>start_time\<close> are those of the construction.
\<close>

theorem request_count_frame:
  "after_request B r self = self\<lparr>request_count := request_count self + 1\<rparr>
   \<and> request_count (after_request B r self) = request_count self + 1
   \<and> server_name (after_request B r self) = server_name self
   \<and> start_time (after_request B r self) = start_time self
   \<and> request_count (run B rs self) = request_count self + int (length rs)
   \<and> request_count self \<le> request_count (run B rs self)
   \<and> server_name (run B rs (init nm now)) = nm
   \<and> start_time (run B rs (init nm now)) = now"
  by (simp add: after_request_eq run_eq init_def)

text \<open>
  C7. \<open>list_tools\<close> returns the catalog: the same five descriptors in the same order,
  from every server state, so after any sequence of earlier requests and however often
  it is called.
\<close>

theorem list_tools_deterministic:
  "fst (handle_list_tools self) = Inr get_all_tools
   \<and> fst (handle_list_tools (run B rs self)) = fst (handle_list_tools self)
   \<and> fst (handle_list_tools (snd (handle_list_tools self))) = fst (handle_list_tools self)
   \<and> length get_all_tools = 5
   \<and> map name get_all_tools = [''hello_world'', ''echo'', ''get_time'', ''math_add'', ''debug_info'']"
  by (simp add: handle_list_tools_def Let_def tool_names) (simp add: get_all_tools_def)

lemma route_unknown:
  "nm \<notin> set (map name get_all_tools) \<Longrightarrow>
   route_tool B clk nm arguments self = Inr (''Unknown tool: '' @ nm)"
  by (simp add: tool_names route_tool_def)

lemma route_tool_handlers:
  "route_tool B clk ''hello_world'' arguments self = handle_hello_world B clk arguments"
  "route_tool B clk ''echo'' arguments self = handle_echo B arguments"
  "route_tool B clk ''get_time'' arguments self = handle_get_time B clk arguments"
  "route_tool B clk ''math_add'' arguments self = handle_math_add B arguments"
  "route_tool B clk ''debug_info'' arguments self = handle_debug_info B clk arguments self"
  by (simp_all add: route_tool_def)

text \<open>
  C2. For a tool name that is not in the catalog, the routing reaches no handler: the
  response is the one text block \<open>Unknown tool: name\<close>, whatever the arguments, the
  clock and the runtime, and the request counter is incremented.
\<close>

theorem unknown_tool:
  "nm \<notin> set (map name get_all_tools) \<Longrightarrow>
     handle_call_tool B clk nm arguments self =
       (Inr [TextContent ''text'' (''Unknown tool: '' @ nm)],
        self\<lparr>request_count := request_count self + 1\<rparr>)"
  by (simp add: handle_call_tool_def Let_def route_unknown)

theorem unknown_tool_witness:
  "''nonexistent_tool'' \<notin> set (map name get_all_tools)
   \<and> handle_call_tool example_runtime example_clock ''nonexistent_tool'' [] example_server =
       (Inr [TextContent ''text'' ''Unknown tool: nonexistent_tool''],
        \<lparr> server_name = ''simple-mcp-debug'', start_time = 1704110280000000,
          request_count = 1 \<rparr>)"
  using unknown_tool [of "''nonexistent_tool''" example_runtime example_clock "[]" example_server]
  by (simp add: tool_names example_server_def init_def)

lemma call_tool_Inl:
  "route_tool B clk nm arguments (self\<lparr>request_count := request_count self + 1\<rparr>) = Inl e \<Longrightarrow>
   fst (handle_call_tool B clk nm arguments self) =
     Inr [TextContent ''text'' (''Error executing tool '' @ nm @ '': '' @ exc_str e)]"
  by (simp add: handle_call_tool_def Let_def)

lemma call_tool_Inr:
  "route_tool B clk nm arguments (self\<lparr>request_count := request_count self + 1\<rparr>) = Inr r \<Longrightarrow>
   fst (handle_call_tool B clk nm arguments self) = Inr [TextContent ''text'' r]"
  by (simp add: handle_call_tool_def Let_def)

lemma call_tool_text:
  "\<exists>t. fst (handle_call_tool B clk nm arguments self) = Inr [TextContent ''text'' t]"
  by (cases "route_tool B clk nm arguments (self\<lparr>request_count := request_count self + 1\<rparr>)")
     (simp_all add: call_tool_Inl call_tool_Inr)

lemma hello_world_text:
  "\<exists>r. handle_hello_world B clk arguments = Inr r \<and>
       fst (handle_call_tool B clk ''hello_world'' arguments self) = Inr [TextContent ''text'' r]"
proof -
  obtain r where r: "handle_hello_world B clk arguments = Inr r"
    by (simp add: handle_hello_world_def Let_def)
  then have "route_tool B clk ''hello_world'' arguments
               (self\<lparr>request_count := request_count self + 1\<rparr>) = Inr r"
    by (simp add: route_tool_handlers)
  then have "fst (handle_call_tool B clk ''hello_world'' arguments self) = Inr [TextContent ''text'' r]"
    by (rule call_tool_Inr)
  with r show ?thesis by blast
qed

text \<open>
  C1. \<open>handle_call_tool\<close> never raises: for every tool name and argument map it returns
  one text block. When the handler it routes to raises \<open>e\<close>, the block carries
  \<open>Error executing tool name: str(e)\<close>; when the handler returns a text, the block
  carries that text. Both are a list of one \<open>TextContent\<close> of type \<open>text\<close>. The
  statement is given for the routing as a whole and for each handler that can raise;
  \<open>handle_hello_world\<close> never raises, and its text is returned.
\<close>

theorem call_tool_catches:
  "(\<exists>t. fst (handle_call_tool B clk nm arguments self) = Inr [TextContent ''text'' t])
   \<and> (\<forall>e. route_tool B clk nm arguments (self\<lparr>request_count := request_count self + 1\<rparr>) = Inl e \<longrightarrow>
          fst (handle_call_tool B clk nm arguments self) =
            Inr [TextContent ''text'' (''Error executing tool '' @ nm @ '': '' @ exc_str e)])
   \<and> (\<forall>r. route_tool B clk nm arguments (self\<lparr>request_count := request_count self + 1\<rparr>) = Inr r \<longrightarrow>
          fst (handle_call_tool B clk nm arguments self) = Inr [TextContent ''text'' r])
   \<and> (\<exists>r. handle_hello_world B clk arguments = Inr r \<and>
          fst (handle_call_tool B clk ''hello_world'' arguments self) = Inr [TextContent ''text'' r])
   \<and> (\<forall>e. handle_echo B arguments = Inl e \<longrightarrow>
          fst (handle_call_tool B clk ''echo'' arguments self) =
            Inr [TextContent ''text'' (''Error executing tool echo: '' @ exc_str e)])
   \<and> (\<forall>e. handle_get_time B clk arguments = Inl e \<longrightarrow>
          fst (handle_call_tool B clk ''get_time'' arguments self) =
            Inr [TextContent ''text'' (''Error executing tool get_time: '' @ exc_str e)])
   \<and> (\<forall>e. handle_math_add B arguments = Inl e \<longrightarrow>
          fst (handle_call_tool B clk ''math_add'' arguments self) =
            Inr [TextContent ''text'' (''Error executing tool math_add: '' @ exc_str e)])
   \<and> (\<forall>e. handle_debug_info B clk arguments (self\<lparr>request_count := request_count self + 1\<rparr>) = Inl e \<longrightarrow>
          fst (handle_call_tool B clk ''debug_info'' arguments self) =
            Inr [TextContent ''text'' (''Error executing tool debug_info: '' @ exc_str e)])"
  using call_tool_text [of B clk nm arguments self] hello_world_text [of B clk arguments self]
  by (simp add: call_tool_Inl call_tool_Inr route_tool_handlers)

theorem call_tool_catches_witness:
  "handle_echo example_runtime [] = Inl (PyExc ValueError ''Missing required parameter: message'')
   \<and> fst (handle_call_tool example_runtime example_clock ''echo'' [] example_server) =
       Inr [TextContent ''text'' ''Error executing tool echo: Missing required parameter: message'']"
proof -
  have h: "handle_echo example_runtime [] =
             Inl (PyExc ValueError ''Missing required parameter: message'')"
    by (simp add: handle_echo_def)
  show ?thesis
    using h call_tool_catches [of example_runtime example_clock "''echo''" "[]" example_server]
    by simp
qed

section \<open>Facts about the handlers\<close>

lemma py_str_PStr: "py_str B (PStr s) = s"
  by (simp add: py_str_def)

lemma echo_missing:
  "\<not> has_key arguments ''message'' \<Longrightarrow>
   handle_echo B arguments = Inl (PyExc ValueError ''Missing required parameter: message'')"
  by (simp add: handle_echo_def has_key_def)

lemma echo_present:
  "map_of arguments ''message'' = Some m \<Longrightarrow>
   handle_echo B arguments = Inr (py_str B (dict_get arguments ''prefix'' (PStr ''Echo: '')) @ py_str B m)"
  by (simp add: handle_echo_def Let_def)

lemma echo_example:
  "fst (handle_call_tool B clk ''echo'' [(''message'', PStr ''hi''), (''prefix'', PStr ''X: '')] self) =
     Inr [TextContent ''text'' ''X: hi'']"
  by (simp add: handle_call_tool_def Let_def route_tool_def handle_echo_def dict_get_def py_str_def)

text \<open>
  C6. \<open>handle_echo\<close> raises the ValueError when \<open>message\<close> is not a key of the
  arguments, and the dispatcher turns it into the error text. Otherwise it returns the
  prefix followed by the message, each formatted as an f-string formats it: a str stands
  unmodified, so for str values the result is the concatenation itself, with \<open>Echo: \<close>
  for an absent prefix. Calling \<open>echo\<close> with message \<open>hi\<close> and prefix \<open>X: \<close>
  yields the text \<open>X: hi\<close>.
\<close>

theorem echo_contract:
  "(\<not> has_key arguments ''message'' \<longrightarrow>
      handle_echo B arguments = Inl (PyExc ValueError ''Missing required parameter: message'')
      \<and> fst (handle_call_tool B clk ''echo'' arguments self) =
          Inr [TextContent ''text'' ''Error executing tool echo: Missing required parameter: message''])
   \<and> (\<forall>m. map_of arguments ''message'' = Some m \<longrightarrow>
          handle_echo B arguments =
            Inr (py_str B (dict_get arguments ''prefix'' (PStr ''Echo: '')) @ py_str B m))
   \<and> (\<forall>m. map_of arguments ''message'' = Some (PStr m) \<and> \<not> has_key arguments ''prefix'' \<longrightarrow>
          handle_echo B arguments = Inr (''Echo: '' @ m))
   \<and> (\<forall>m p. map_of arguments ''message'' = Some (PStr m) \<and> map_of arguments ''prefix'' = Some (PStr p) \<longrightarrow>
          handle_echo B arguments = Inr (p @ m))
   \<and> fst (handle_call_tool B clk ''echo'' [(''message'', PStr ''hi''), (''prefix'', PStr ''X: '')] self) =
       Inr [TextContent ''text'' ''X: hi'']"
proof -
  have a: "\<not> has_key arguments ''message'' \<longrightarrow>
      handle_echo B arguments = Inl (PyExc ValueError ''Missing required parameter: message'')
      \<and> fst (handle_call_tool B clk ''echo'' arguments self) =
          Inr [TextContent ''text'' ''Error executing tool echo: Missing required parameter: message'']"
    by (simp add: echo_missing handle_call_tool_def Let_def route_tool_def)
  have b: "\<forall>m. map_of arguments ''message'' = Some m \<longrightarrow>
          handle_echo B arguments =
            Inr (py_str B (dict_get arguments ''prefix'' (PStr ''Echo: '')) @ py_str B m)"
    by (simp add: echo_present)
  have c: "\<forall>m. map_of arguments ''message'' = Some (PStr m) \<and> \<not> has_key arguments ''prefix'' \<longrightarrow>
          handle_echo B arguments = Inr (''Echo: '' @ m)"
    by (simp add: echo_present dict_get_def has_key_def py_str_PStr)
  have d: "\<forall>m p. map_of arguments ''message'' = Some (PStr m) \<and> map_of arguments ''prefix'' = Some (PStr p) \<longrightarrow>
          handle_echo B arguments = Inr (p @ m)"
    by (simp add: echo_present dict_get_def py_str_PStr)
  from a b c d echo_example [of B clk self] show ?thesis by blast
qed

theorem echo_contract_witness:
  "\<not> has_key ([] :: pydict) ''message''
   \<and> handle_echo example_runtime [] = Inl (PyExc ValueError ''Missing required parameter: message'')
   \<and> map_of [(''message'', PStr ''hi'')] ''message'' = Some (PStr ''hi'')
   \<and> \<not> has_key [(''message'', PStr ''hi'')] ''prefix''
   \<and> handle_echo example_runtime [(''message'', PStr ''hi'')] = Inr ''Echo: hi''"
proof -
  have h1: "\<not> has_key ([] :: pydict) ''message''"
    by (simp add: has_key_def)
  have h2: "map_of [(''message'', PStr ''hi'')] ''message'' = Some (PStr ''hi'')
            \<and> \<not> has_key [(''message'', PStr ''hi'')] ''prefix''"
    by (simp add: has_key_def)
  from h1 echo_contract [of "[]" example_runtime example_clock example_server]
  have r1: "handle_echo example_runtime [] = Inl (PyExc ValueError ''Missing required parameter: message'')"
    by blast
  from h2 echo_contract [of "[(''message'', PStr ''hi'')]" example_runtime example_clock example_server]
  have r2: "handle_echo example_runtime [(''message'', PStr ''hi'')] = Inr (''Echo: '' @ ''hi'')"
    by blast
  from h1 h2 r1 r2 show ?thesis by simp
qed

lemma sublist_last: "sublist xs (ps @ xs)"
  using sublist_appendI [of xs ps "[]"] by simp

lemma sublist_15: "sublist ''15'' (ps @ ''15.0'')"
  using sublist_appendI [of "''15''" ps "''.0''"] by simp

lemma math_add_missing:
  "\<not> has_key arguments ''a'' \<or> \<not> has_key arguments ''b'' \<Longrightarrow>
   handle_math_add B arguments = Inl (PyExc ValueError ''Missing required parameters: a and b'')"
  by (auto simp: handle_math_add_def has_key_def split: option.splits)

lemma math_add_bad_a:
  "map_of arguments ''a'' = Some va \<Longrightarrow> map_of arguments ''b'' = Some vb \<Longrightarrow>
   py_float B va = Inl e \<Longrightarrow>
   handle_math_add B arguments =
     Inl (if exc_class_of e = ValueError \<or> exc_class_of e = TypeError
          then PyExc ValueError (''Invalid number format: '' @ exc_str e) else e)"
  by (simp add: handle_math_add_def convert_operands_def)

lemma math_add_bad_b:
  "map_of arguments ''a'' = Some va \<Longrightarrow> map_of arguments ''b'' = Some vb \<Longrightarrow>
   py_float B va = Inr a \<Longrightarrow> py_float B vb = Inl e \<Longrightarrow>
   handle_math_add B arguments =
     Inl (if exc_class_of e = ValueError \<or> exc_class_of e = TypeError
          then PyExc ValueError (''Invalid number format: '' @ exc_str e) else e)"
  by (simp add: handle_math_add_def convert_operands_def)

lemma math_add_ok:
  "map_of arguments ''a'' = Some va \<Longrightarrow> map_of arguments ''b'' = Some vb \<Longrightarrow>
   py_float B va = Inr a \<Longrightarrow> py_float B vb = Inr b \<Longrightarrow>
   handle_math_add B arguments =
     Inr (py_str B (PFloat a) @ '' + '' @ py_str B (PFloat b) @ '' = '' @
          py_str B (PFloat (float_add B a b)))"
  by (simp add: handle_math_add_def convert_operands_def Let_def)

lemma math_add_example_ok:
  assumes "py_float B (PInt 10) = Inr x" and "py_float B (PInt 5) = Inr y"
    and "format_value B (PFloat (float_add B x y)) = ''15.0''"
  shows "\<exists>t. fst (handle_call_tool B clk ''math_add'' [(''a'', PInt 10), (''b'', PInt 5)] self) =
              Inr [TextContent ''text'' t] \<and> sublist ''15'' t"
proof -
  have "handle_math_add B [(''a'', PInt 10), (''b'', PInt 5)] =
          Inr (py_str B (PFloat x) @ '' + '' @ py_str B (PFloat y) @ '' = '' @
               py_str B (PFloat (float_add B x y)))"
    using assms(1,2) by (intro math_add_ok [of _ "PInt 10" "PInt 5"]) simp_all
  moreover have "py_str B (PFloat (float_add B x y)) = ''15.0''"
    using assms(3) by (simp add: py_str_def)
  ultimately have "fst (handle_call_tool B clk ''math_add'' [(''a'', PInt 10), (''b'', PInt 5)] self) =
      Inr [TextContent ''text'' ((py_str B (PFloat x) @ '' + '' @ py_str B (PFloat y) @ '' = '') @ ''15.0'')]"
    by (simp add: handle_call_tool_def Let_def route_tool_def)
  then show ?thesis using sublist_15 by blast
qed

lemma math_add_example_bad:
  assumes "py_float B (PStr ''x'') = Inl (PyExc ValueError m)"
  shows "fst (handle_call_tool B clk ''math_add'' [(''a'', PStr ''x''), (''b'', PInt 5)] self) =
           Inr [TextContent ''text'' (''Error executing tool math_add: Invalid number format: '' @ m)]"
proof -
  have "handle_math_add B [(''a'', PStr ''x''), (''b'', PInt 5)] =
          Inl (PyExc ValueError (''Invalid number format: '' @ m))"
    using assms math_add_bad_a [of "[(''a'', PStr ''x''), (''b'', PInt 5)]" "PStr ''x''" "PInt 5" B "PyExc ValueError m"]
    by simp
  then show ?thesis
    by (simp add: handle_call_tool_def Let_def route_tool_def)
qed

text \<open>
  What \<open>handle_math_add\<close> does. It raises when \<open>a\<close> or \<open>b\<close> is not a key of the
  arguments, and when \<open>float()\<close> raises on the value of \<open>a\<close> or, \<open>a\<close> converted, on
  the value of \<open>b\<close>: a ValueError or TypeError of \<open>float()\<close> is raised again as the
  ValueError \<open>Invalid number format: ...\<close>, any other exception as it is. Otherwise it
  returns \<open>a + b = sum\<close>, a text that contains the formatted sum. In a runtime where
  \<open>float(10)\<close> and \<open>float(5)\<close> succeed and their sum is formatted \<open>15.0\<close>, calling
  \<open>math_add\<close> with 10 and 5 yields a text that contains \<open>15\<close>; where \<open>float('x')\<close>
  raises a ValueError, calling it with \<open>x\<close> and 5 yields the error text.
\<close>

lemma math_add_contract:
  "(\<not> has_key arguments ''a'' \<or> \<not> has_key arguments ''b'' \<longrightarrow>
      handle_math_add B arguments = Inl (PyExc ValueError ''Missing required parameters: a and b''))
   \<and> (\<forall>va vb e. map_of arguments ''a'' = Some va \<and> map_of arguments ''b'' = Some vb \<and>
          py_float B va = Inl e \<longrightarrow>
          handle_math_add B arguments =
            Inl (if exc_class_of e = ValueError \<or> exc_class_of e = TypeError
                 then PyExc ValueError (''Invalid number format: '' @ exc_str e) else e))
   \<and> (\<forall>va vb a e. map_of arguments ''a'' = Some va \<and> map_of arguments ''b'' = Some vb \<and>
          py_float B va = Inr a \<and> py_float B vb = Inl e \<longrightarrow>
          handle_math_add B arguments =
            Inl (if exc_class_of e = ValueError \<or> exc_class_of e = TypeError
                 then PyExc ValueError (''Invalid number format: '' @ exc_str e) else e))
   \<and> (\<forall>va vb a b. map_of arguments ''a'' = Some va \<and> map_of arguments ''b'' = Some vb \<and>
          py_float B va = Inr a \<and> py_float B vb = Inr b \<longrightarrow>
          handle_math_add B arguments =
            Inr (py_str B (PFloat a) @ '' + '' @ py_str B (PFloat b) @ '' = '' @
                 py_str B (PFloat (float_add B a b)))
          \<and> sublist (py_str B (PFloat (float_add B a b)))
               (py_str B (PFloat a) @ '' + '' @ py_str B (PFloat b) @ '' = '' @
                py_str B (PFloat (float_add B a b))))
   \<and> (\<forall>x y. py_float B (PInt 10) = Inr x \<and> py_float B (PInt 5) = Inr y \<and>
          format_value B (PFloat (float_add B x y)) = ''15.0'' \<longrightarrow>
          (\<exists>t. fst (handle_call_tool B clk ''math_add'' [(''a'', PInt 10), (''b'', PInt 5)] self) =
                  Inr [TextContent ''text'' t] \<and> sublist ''15'' t))
   \<and> (\<forall>m. py_float B (PStr ''x'') = Inl (PyExc ValueError m) \<longrightarrow>
          fst (handle_call_tool B clk ''math_add'' [(''a'', PStr ''x''), (''b'', PInt 5)] self) =
            Inr [TextContent ''text''
                  (''Error executing tool math_add: Invalid number format: '' @ m)])"
proof (intro conjI allI impI)
  assume "\<not> has_key arguments ''a'' \<or> \<not> has_key arguments ''b''"
  then show "handle_math_add B arguments = Inl (PyExc ValueError ''Missing required parameters: a and b'')"
    by (rule math_add_missing)
next
  fix va vb e
  assume "map_of arguments ''a'' = Some va \<and> map_of arguments ''b'' = Some vb \<and> py_float B va = Inl e"
  then show "handle_math_add B arguments =
            Inl (if exc_class_of e = ValueError \<or> exc_class_of e = TypeError
                 then PyExc ValueError (''Invalid number format: '' @ exc_str e) else e)"
    using math_add_bad_a by blast
next
  fix va vb a e
  assume "map_of arguments ''a'' = Some va \<and> map_of arguments ''b'' = Some vb \<and>
          py_float B va = Inr a \<and> py_float B vb = Inl e"
  then show "handle_math_add B arguments =
            Inl (if exc_class_of e = ValueError \<or> exc_class_of e = TypeError
                 then PyExc ValueError (''Invalid number format: '' @ exc_str e) else e)"
    using math_add_bad_b by blast
next
  fix va vb a b
  assume "map_of arguments ''a'' = Some va \<and> map_of arguments ''b'' = Some vb \<and>
          py_float B va = Inr a \<and> py_float B vb = Inr b"
  then show "handle_math_add B arguments =
            Inr (py_str B (PFloat a) @ '' + '' @ py_str B (PFloat b) @ '' = '' @
                 py_str B (PFloat (float_add B a b)))"
    using math_add_ok by blast
next
  fix va vb a b
  show "sublist (py_str B (PFloat (float_add B a b)))
               (py_str B (PFloat a) @ '' + '' @ py_str B (PFloat b) @ '' = '' @
                py_str B (PFloat (float_add B a b)))"
    using sublist_last [of "py_str B (PFloat (float_add B a b))"
            "py_str B (PFloat a) @ '' + '' @ py_str B (PFloat b) @ '' = ''"]
    by simp
next
  fix x y
  assume "py_float B (PInt 10) = Inr x \<and> py_float B (PInt 5) = Inr y \<and>
          format_value B (PFloat (float_add B x y)) = ''15.0''"
  then show "\<exists>t. fst (handle_call_tool B clk ''math_add'' [(''a'', PInt 10), (''b'', PInt 5)] self) =
                  Inr [TextContent ''text'' t] \<and> sublist ''15'' t"
    using math_add_example_ok by blast
next
  fix m
  assume "py_float B (PStr ''x'') = Inl (PyExc ValueError m)"
  then show "fst (handle_call_tool B clk ''math_add'' [(''a'', PStr ''x''), (''b'', PInt 5)] self) =
            Inr [TextContent ''text''
                  (''Error executing tool math_add: Invalid number format: '' @ m)]"
    by (rule math_add_example_bad)
qed

lemma math_add_contract_examples:
  "has_key [(''a'', PInt 10), (''b'', PInt 5)] ''a'' \<and> has_key [(''a'', PInt 10), (''b'', PInt 5)] ''b''
   \<and> py_float example_runtime (PInt 10) = Inr (Finite 10)
   \<and> py_float example_runtime (PInt 5) = Inr (Finite 5)
   \<and> format_value example_runtime (PFloat (float_add example_runtime (Finite 10) (Finite 5))) = ''15.0''
   \<and> handle_math_add example_runtime [(''a'', PInt 10), (''b'', PInt 5)] = Inr ''10.0 + 5.0 = 15.0''
   \<and> (\<exists>t. fst (handle_call_tool example_runtime example_clock ''math_add''
                  [(''a'', PInt 10), (''b'', PInt 5)] example_server) = Inr [TextContent ''text'' t]
            \<and> sublist ''15'' t)
   \<and> \<not> has_key [(''a'', PInt 10)] ''b''
   \<and> handle_math_add example_runtime [(''a'', PInt 10)] =
        Inl (PyExc ValueError ''Missing required parameters: a and b'')
   \<and> py_float example_runtime (PStr ''x'') =
        Inl (PyExc ValueError (''could not convert string to float: '' @ [CHR 0x27] @ ''x'' @ [CHR 0x27]))
   \<and> fst (handle_call_tool example_runtime example_clock ''math_add''
             [(''a'', PStr ''x''), (''b'', PInt 5)] example_server) =
        Inr [TextContent ''text''
              (''Error executing tool math_add: Invalid number format: '' @
               ''could not convert string to float: '' @ [CHR 0x27] @ ''x'' @ [CHR 0x27])]
   \<and> handle_math_add example_runtime [(''a'', PInt 10), (''b'', PStr ''x'')] =
        Inl (PyExc ValueError
              (''Invalid number format: '' @
               ''could not convert string to float: '' @ [CHR 0x27] @ ''x'' @ [CHR 0x27]))"
proof -
  let ?B = example_runtime
  have k: "map_of [(''a'', PInt 10), (''b'', PInt 5)] ''a'' = Some (PInt 10)
           \<and> map_of [(''a'', PInt 10), (''b'', PInt 5)] ''b'' = Some (PInt 5)"
    by simp
  have f10: "py_float ?B (PInt 10) = Inr (Finite 10)"
    and f5: "py_float ?B (PInt 5) = Inr (Finite 5)"
    and fx: "py_float ?B (PStr ''x'') =
        Inl (PyExc ValueError (''could not convert string to float: '' @ [CHR 0x27] @ ''x'' @ [CHR 0x27]))"
    and s15: "format_value ?B (PFloat (float_add ?B (Finite 10) (Finite 5))) = ''15.0''"
    by (simp_all add: example_runtime_def)
  have nb: "\<not> has_key [(''a'', PInt 10)] ''b''"
    by (simp add: has_key_def)
  note c1 = math_add_contract [of "[(''a'', PInt 10), (''b'', PInt 5)]" ?B example_clock example_server]
  note c2 = math_add_contract [of "[(''a'', PInt 10)]" ?B example_clock example_server]
  from c1 k f10 f5 have r1: "handle_math_add ?B [(''a'', PInt 10), (''b'', PInt 5)] =
      Inr (py_str ?B (PFloat (Finite 10)) @ '' + '' @ py_str ?B (PFloat (Finite 5)) @ '' = '' @
           py_str ?B (PFloat (float_add ?B (Finite 10) (Finite 5))))"
    by blast
  have r1': "handle_math_add ?B [(''a'', PInt 10), (''b'', PInt 5)] = Inr ''10.0 + 5.0 = 15.0''"
    unfolding r1 by (simp add: example_runtime_def py_str_def)
  from c1 f10 f5 s15 have r2: "\<exists>t. fst (handle_call_tool ?B example_clock ''math_add''
                  [(''a'', PInt 10), (''b'', PInt 5)] example_server) = Inr [TextContent ''text'' t]
            \<and> sublist ''15'' t"
    by blast
  from c2 nb have r3: "handle_math_add ?B [(''a'', PInt 10)] =
        Inl (PyExc ValueError ''Missing required parameters: a and b'')"
    by blast
  from c1 fx have r4: "fst (handle_call_tool ?B example_clock ''math_add''
             [(''a'', PStr ''x''), (''b'', PInt 5)] example_server) =
        Inr [TextContent ''text''
              (''Error executing tool math_add: Invalid number format: '' @
               ''could not convert string to float: '' @ [CHR 0x27] @ ''x'' @ [CHR 0x27])]"
    by blast
  have k3: "map_of [(''a'', PInt 10), (''b'', PStr ''x'')] ''a'' = Some (PInt 10)
            \<and> map_of [(''a'', PInt 10), (''b'', PStr ''x'')] ''b'' = Some (PStr ''x'')"
    by simp
  note c3 = math_add_contract [of "[(''a'', PInt 10), (''b'', PStr ''x'')]" ?B example_clock example_server]
  from c3 k3 f10 fx have "handle_math_add ?B [(''a'', PInt 10), (''b'', PStr ''x'')] =
      Inl (if exc_class_of (PyExc ValueError
                 (''could not convert string to float: '' @ [CHR 0x27] @ ''x'' @ [CHR 0x27])) = ValueError
              \<or> exc_class_of (PyExc ValueError
                 (''could not convert string to float: '' @ [CHR 0x27] @ ''x'' @ [CHR 0x27])) = TypeError
           then PyExc ValueError (''Invalid number format: '' @ exc_str (PyExc ValueError
                 (''could not convert string to float: '' @ [CHR 0x27] @ ''x'' @ [CHR 0x27])))
           else PyExc ValueError
                 (''could not convert string to float: '' @ [CHR 0x27] @ ''x'' @ [CHR 0x27]))"
    by blast
  then have r5: "handle_math_add ?B [(''a'', PInt 10), (''b'', PStr ''x'')] =
        Inl (PyExc ValueError
              (''Invalid number format: '' @
               ''could not convert string to float: '' @ [CHR 0x27] @ ''x'' @ [CHR 0x27]))"
    by simp
  have ha: "has_key [(''a'', PInt 10), (''b'', PInt 5)] ''a'' \<and> has_key [(''a'', PInt 10), (''b'', PInt 5)] ''b''"
    by (simp add: has_key_def)
  from ha f10 f5 s15 r1' r2 nb r3 fx r4 r5 show ?thesis by blast
qed

text \<open>
  C4. A value of \<open>a\<close> or \<open>b\<close> on which the conversion to a float fails is to make
  \<open>handle_math_add\<close> fail with its ValueError \<open>Invalid number format: ...\<close>. The
  int \<open>10**400\<close> is a JSON number on which \<open>float()\<close> raises an OverflowError. The
  \<open>except\<close> clause of the handler names ValueError and TypeError only, so the handler
  raises the OverflowError itself, not the ValueError, and the text of the dispatcher is
  \<open>Error executing tool math_add: \<close> followed by the message of the OverflowError.
\<close>

theorem math_add_overflow_unconverted:
  "py_float B (PInt (10 ^ 400)) = Inl (PyExc OverflowError m) \<Longrightarrow>
     handle_math_add B [(''a'', PInt (10 ^ 400)), (''b'', PInt 5)] = Inl (PyExc OverflowError m)
     \<and> handle_math_add B [(''a'', PInt (10 ^ 400)), (''b'', PInt 5)] \<noteq>
         Inl (PyExc ValueError (''Invalid number format: '' @ m))
     \<and> fst (handle_call_tool B clk ''math_add'' [(''a'', PInt (10 ^ 400)), (''b'', PInt 5)] self) =
         Inr [TextContent ''text'' (''Error executing tool math_add: '' @ m)]"
proof -
  assume a: "py_float B (PInt (10 ^ 400)) = Inl (PyExc OverflowError m)"
  have k: "map_of [(''a'', PInt (10 ^ 400)), (''b'', PInt 5)] ''a'' = Some (PInt (10 ^ 400))"
          "map_of [(''a'', PInt (10 ^ 400)), (''b'', PInt 5)] ''b'' = Some (PInt 5)"
    by simp_all
  have h: "handle_math_add B [(''a'', PInt (10 ^ 400)), (''b'', PInt 5)] = Inl (PyExc OverflowError m)"
    using math_add_bad_a [OF k a] by simp
  then have "route_tool B clk ''math_add'' [(''a'', PInt (10 ^ 400)), (''b'', PInt 5)]
               (self\<lparr>request_count := request_count self + 1\<rparr>) = Inl (PyExc OverflowError m)"
    by (simp only: route_tool_handlers)
  then have "fst (handle_call_tool B clk ''math_add'' [(''a'', PInt (10 ^ 400)), (''b'', PInt 5)] self) =
      Inr [TextContent ''text'' (''Error executing tool '' @ ''math_add'' @ '': '' @ exc_str (PyExc OverflowError m))]"
    by (rule call_tool_Inl)
  with h show ?thesis by simp
qed

theorem math_add_overflow_unconverted_witness:
  "py_float example_runtime (PInt (10 ^ 400)) =
     Inl (PyExc OverflowError ''int too large to convert to float'')
   \<and> handle_math_add example_runtime [(''a'', PInt (10 ^ 400)), (''b'', PInt 5)] =
       Inl (PyExc OverflowError ''int too large to convert to float'')
   \<and> fst (handle_call_tool example_runtime example_clock ''math_add''
            [(''a'', PInt (10 ^ 400)), (''b'', PInt 5)] example_server) =
       Inr [TextContent ''text'' ''Error executing tool math_add: int too large to convert to float'']"
proof -
  have a: "py_float example_runtime (PInt (10 ^ 400)) =
     Inl (PyExc OverflowError ''int too large to convert to float'')"
    by (simp add: example_runtime_def)
  from math_add_overflow_unconverted [OF a, of example_clock example_server] a
  show ?thesis by simp
qed

lemma format_time_valid:
  "format_time B now (PStr ''iso'') = Inr (isoformat B now)"
  "format_time B now (PStr ''timestamp'') = Inr (py_str B (PFloat (timestamp B now)))"
  "format_time B now (PStr ''readable'') = Inr (strftime B now ''%Y-%m-%d %H:%M:%S'')"
  by (simp_all add: format_time_def)

lemma format_time_invalid:
  "f \<noteq> PStr ''iso'' \<Longrightarrow> f \<noteq> PStr ''timestamp'' \<Longrightarrow> f \<noteq> PStr ''readable'' \<Longrightarrow>
   format_time B now f = Inl (PyExc ValueError (''Unknown time format: '' @ py_str B f))"
  by (simp add: format_time_def)

lemma get_time_ok:
  "format_time B (clk 0) (dict_get arguments ''format'' (PStr ''readable'')) = Inr ts \<Longrightarrow>
   handle_get_time B clk arguments =
     Inr (''Current time: '' @ ts @
          (if dict_get arguments ''timezone'' (PStr ''local'') \<noteq> PStr ''local''
           then '' (requested timezone: '' @ py_str B (dict_get arguments ''timezone'' (PStr ''local'')) @ '')''
           else []))"
  by (simp add: handle_get_time_def Let_def)

lemma get_time_bad:
  "map_of arguments ''format'' = Some f \<Longrightarrow>
   f \<noteq> PStr ''iso'' \<Longrightarrow> f \<noteq> PStr ''timestamp'' \<Longrightarrow> f \<noteq> PStr ''readable'' \<Longrightarrow>
   handle_get_time B clk arguments = Inl (PyExc ValueError (''Unknown time format: '' @ py_str B f))"
  by (simp add: handle_get_time_def Let_def dict_get_def format_time_invalid)

lemma map_of_delete_same: "map_of (AList.delete k al) k = None"
  by (simp add: map_of_eq_None_iff delete_notin_dom)

lemma get_time_timezone_only_appends:
  "handle_get_time B clk ((''timezone'', tz) # arguments) =
     (case handle_get_time B clk (AList.delete ''timezone'' arguments) of
        Inl e \<Rightarrow> Inl e
      | Inr r \<Rightarrow> Inr (r @ (if tz \<noteq> PStr ''local''
                           then '' (requested timezone: '' @ py_str B tz @ '')'' else [])))"
  by (simp add: handle_get_time_def Let_def dict_get_def map_of_delete map_of_delete_same split: sum.splits)

lemma format_time_valid_ex:
  "f = PStr ''iso'' \<or> f = PStr ''readable'' \<or> f = PStr ''timestamp'' \<Longrightarrow> \<exists>ts. format_time B now f = Inr ts"
  by (auto simp: format_time_def)

text \<open>
  C5 (as amended). The time text of \<open>handle_get_time\<close> is computed from the clock and
  the format alone. When the format is \<open>iso\<close>, \<open>readable\<close> or \<open>timestamp\<close> (an absent
  format is \<open>readable\<close>), the handler returns \<open>Current time: \<close> and the time text,
  followed by \<open> (requested timezone: tz)\<close> when the timezone differs from \<open>local\<close>
  and by nothing when it is \<open>local\<close> or absent. Supplying a timezone changes the
  response of the same call without it by that suffix only. When the format is present
  and is none of the three, the handler raises the ValueError \<open>Unknown time format\<close>.
\<close>

theorem get_time_contract:
  "(dict_get arguments ''format'' (PStr ''readable'') = PStr ''iso''
      \<or> dict_get arguments ''format'' (PStr ''readable'') = PStr ''readable''
      \<or> dict_get arguments ''format'' (PStr ''readable'') = PStr ''timestamp'' \<longrightarrow>
      (\<exists>ts. format_time B (clk 0) (dict_get arguments ''format'' (PStr ''readable'')) = Inr ts
         \<and> handle_get_time B clk arguments =
             Inr (''Current time: '' @ ts @
                  (if dict_get arguments ''timezone'' (PStr ''local'') \<noteq> PStr ''local''
                   then '' (requested timezone: '' @
                        py_str B (dict_get arguments ''timezone'' (PStr ''local'')) @ '')''
                   else []))))
   \<and> (\<not> has_key arguments ''format'' \<longrightarrow>
         dict_get arguments ''format'' (PStr ''readable'') = PStr ''readable'')
   \<and> handle_get_time B clk ((''timezone'', tz) # arguments) =
        (case handle_get_time B clk (AList.delete ''timezone'' arguments) of
           Inl e \<Rightarrow> Inl e
         | Inr r \<Rightarrow> Inr (r @ (if tz \<noteq> PStr ''local''
                              then '' (requested timezone: '' @ py_str B tz @ '')'' else [])))
   \<and> (\<forall>f. map_of arguments ''format'' = Some f \<and>
          f \<noteq> PStr ''iso'' \<and> f \<noteq> PStr ''readable'' \<and> f \<noteq> PStr ''timestamp'' \<longrightarrow>
          handle_get_time B clk arguments =
            Inl (PyExc ValueError (''Unknown time format: '' @ py_str B f)))"
proof (intro conjI allI impI)
  assume "dict_get arguments ''format'' (PStr ''readable'') = PStr ''iso''
      \<or> dict_get arguments ''format'' (PStr ''readable'') = PStr ''readable''
      \<or> dict_get arguments ''format'' (PStr ''readable'') = PStr ''timestamp''"
  then obtain ts where
    "format_time B (clk 0) (dict_get arguments ''format'' (PStr ''readable'')) = Inr ts"
    using format_time_valid_ex by blast
  then show "\<exists>ts. format_time B (clk 0) (dict_get arguments ''format'' (PStr ''readable'')) = Inr ts
         \<and> handle_get_time B clk arguments =
             Inr (''Current time: '' @ ts @
                  (if dict_get arguments ''timezone'' (PStr ''local'') \<noteq> PStr ''local''
                   then '' (requested timezone: '' @
                        py_str B (dict_get arguments ''timezone'' (PStr ''local'')) @ '')''
                   else []))"
    using get_time_ok by blast
next
  assume "\<not> has_key arguments ''format''"
  then show "dict_get arguments ''format'' (PStr ''readable'') = PStr ''readable''"
    by (simp add: has_key_def dict_get_def)
next
  show "handle_get_time B clk ((''timezone'', tz) # arguments) =
        (case handle_get_time B clk (AList.delete ''timezone'' arguments) of
           Inl e \<Rightarrow> Inl e
         | Inr r \<Rightarrow> Inr (r @ (if tz \<noteq> PStr ''local''
                              then '' (requested timezone: '' @ py_str B tz @ '')'' else [])))"
    by (rule get_time_timezone_only_appends)
next
  fix f
  assume "map_of arguments ''format'' = Some f \<and>
          f \<noteq> PStr ''iso'' \<and> f \<noteq> PStr ''readable'' \<and> f \<noteq> PStr ''timestamp''"
  then show "handle_get_time B clk arguments =
            Inl (PyExc ValueError (''Unknown time format: '' @ py_str B f))"
    using get_time_bad by blast
qed

theorem get_time_contract_witness:
  "dict_get [(''timezone'', PStr ''UTC'')] ''format'' (PStr ''readable'') = PStr ''readable''
   \<and> handle_get_time example_runtime example_clock [(''timezone'', PStr ''UTC'')] =
       Inr ''Current time: 2024-01-01 12:00:00 (requested timezone: UTC)''
   \<and> map_of [(''format'', PStr ''bogus'')] ''format'' = Some (PStr ''bogus'')
   \<and> handle_get_time example_runtime example_clock [(''format'', PStr ''bogus'')] =
       Inl (PyExc ValueError ''Unknown time format: bogus'')"
proof -
  have h1: "dict_get [(''timezone'', PStr ''UTC'')] ''format'' (PStr ''readable'') = PStr ''readable''"
    by (simp add: dict_get_def)
  have h2: "map_of [(''format'', PStr ''bogus'')] ''format'' = Some (PStr ''bogus'')
            \<and> PStr ''bogus'' \<noteq> PStr ''iso'' \<and> PStr ''bogus'' \<noteq> PStr ''readable''
            \<and> PStr ''bogus'' \<noteq> PStr ''timestamp''"
    by simp
  from h1 get_time_contract [of "[(''timezone'', PStr ''UTC'')]" example_runtime example_clock]
  obtain ts where
    ts: "format_time example_runtime (example_clock 0)
           (dict_get [(''timezone'', PStr ''UTC'')] ''format'' (PStr ''readable'')) = Inr ts"
    and r: "handle_get_time example_runtime example_clock [(''timezone'', PStr ''UTC'')] =
             Inr (''Current time: '' @ ts @
                  (if dict_get [(''timezone'', PStr ''UTC'')] ''timezone'' (PStr ''local'') \<noteq> PStr ''local''
                   then '' (requested timezone: '' @
                        py_str example_runtime (dict_get [(''timezone'', PStr ''UTC'')] ''timezone'' (PStr ''local'')) @ '')''
                   else []))"
    by blast
  from ts have "ts = ''2024-01-01 12:00:00''"
    by (simp add: dict_get_def format_time_def example_runtime_def)
  with r have r1: "handle_get_time example_runtime example_clock [(''timezone'', PStr ''UTC'')] =
       Inr ''Current time: 2024-01-01 12:00:00 (requested timezone: UTC)''"
    by (simp add: dict_get_def py_str_def)
  from h2 get_time_contract [of "[(''format'', PStr ''bogus'')]" example_runtime example_clock]
  have "handle_get_time example_runtime example_clock [(''format'', PStr ''bogus'')] =
       Inl (PyExc ValueError (''Unknown time format: '' @ py_str example_runtime (PStr ''bogus'')))"
    by blast
  then have r2: "handle_get_time example_runtime example_clock [(''format'', PStr ''bogus'')] =
       Inl (PyExc ValueError ''Unknown time format: bogus'')"
    by (simp add: py_str_def)
  from h1 h2 r1 r2 show ?thesis by blast
qed

text \<open>
  C5 as stated has the supplied timezone echoed back for every call with a valid format.
  The timezone \<open>local\<close> is not echoed: the response is the one of a call without
  timezone.
\<close>

theorem get_time_local_not_echoed:
  "handle_get_time example_runtime example_clock [(''timezone'', PStr ''local'')] =
     Inr ''Current time: 2024-01-01 12:00:00''
   \<and> \<not> sublist ''local'' ''Current time: 2024-01-01 12:00:00''"
  by (simp add: handle_get_time_def Let_def dict_get_def format_time_def example_runtime_def)
     code_simp

lemma py_max_nonzero: "\<not> num_is_zero (py_max 1 x)"
  by (cases x) (auto simp: py_max_def)

lemma py_max_clamp:
  "py_max 1 x = (if float_gt_int x 1 then NFloat x else NInt 1)"
  by (simp add: py_max_def)

lemma avg_eq:
  "avg_requests_per_minute B n up =
     (case quotient B (NFloat up) (NInt 60) of
        Inl msg \<Rightarrow> Inl (PyExc OverflowError msg)
      | Inr minutes \<Rightarrow>
          (case quotient B (NInt n) (py_max 1 minutes) of
             Inl msg \<Rightarrow> Inl (PyExc OverflowError msg)
           | Inr q \<Rightarrow> Inr q))"
  by (simp add: avg_requests_per_minute_def py_truediv_def py_max_nonzero split: sum.splits)

lemma avg_not_zerodiv: "avg_requests_per_minute B n up \<noteq> Inl (PyExc ZeroDivisionError m)"
  by (simp add: avg_eq split: sum.splits)

lemma build_debug_info_not_zerodiv:
  "build_debug_info B clk arguments srv \<noteq> Inl (PyExc ZeroDivisionError m)"
  using avg_not_zerodiv [of B "request_count srv" "total_seconds B (clk 0 - start_time srv)" m]
  by (auto simp: build_debug_info_def Let_def split: sum.splits)

lemma debug_info_not_zerodiv:
  "handle_debug_info B clk arguments srv \<noteq> Inl (PyExc ZeroDivisionError m)"
  using build_debug_info_not_zerodiv [of B clk arguments srv m]
  by (auto simp: handle_debug_info_def Let_def split: sum.splits)

lemma length_get_all_tools: "length get_all_tools = 5"
  by (simp add: get_all_tools_def)

lemma handle_debug_info_format:
  "handle_debug_info B clk arguments srv =
     (case build_debug_info B clk arguments srv of
        Inl e \<Rightarrow> Inl e
      | Inr d \<Rightarrow>
          Inr ([CHR 0xF0, CHR 0x9F, CHR 0x94, CHR 0x8D] @ '' MCP Server Debug Information'' @
               [CHR 0x0A, CHR 0x0A] @ json_dumps B (PDict d)))"
  by (simp add: handle_debug_info_def Let_def split: sum.splits)

lemma build_debug_info_stats_fail:
  assumes "py_truthy (dict_get arguments ''include_stats'' (PBool True))"
    and "avg_requests_per_minute B (request_count srv) (total_seconds B (clk 0 - start_time srv)) = Inl e"
  shows "build_debug_info B clk arguments srv = Inl e"
  using assms by (simp add: build_debug_info_def Let_def)

lemma build_debug_info_stats_exact:
  assumes "py_truthy (dict_get arguments ''include_stats'' (PBool True))"
    and "quotient B (NFloat (total_seconds B (clk 0 - start_time srv))) (NInt 60) = Inr minutes"
    and "quotient B (NInt (request_count srv)) (py_max 1 minutes) = Inr q"
  shows "build_debug_info B clk arguments srv =
     Inr ([(''server_name'', PStr (server_name srv)),
           (''start_time'', PStr (isoformat B (start_time srv))),
           (''uptime_seconds'', PFloat (total_seconds B (clk 0 - start_time srv))),
           (''request_count'', PInt (request_count srv)),
           (''python_version'', PStr (python_version B)),
           (''timestamp'', PStr (isoformat B (clk 1)))] @
          (if py_truthy (dict_get arguments ''include_tools'' (PBool True))
           then [(''tools'', PList (map tool_summary get_all_tools))] else []) @
          [(''statistics'',
            PDict [(''tools_available'',
                    PInt (if py_truthy (dict_get arguments ''include_tools'' (PBool True))
                          then 5 else 0)),
                   (''avg_requests_per_minute'', PFloat q)])])"
proof -
  have "avg_requests_per_minute B (request_count srv) (total_seconds B (clk 0 - start_time srv)) = Inr q"
    using assms(2,3) by (simp add: avg_eq)
  then show ?thesis
    using assms(1) by (simp add: build_debug_info_def Let_def dict_get_def length_get_all_tools)
qed

lemma build_debug_info_no_stats_exact:
  assumes "\<not> py_truthy (dict_get arguments ''include_stats'' (PBool True))"
  shows "build_debug_info B clk arguments srv =
     Inr ([(''server_name'', PStr (server_name srv)),
           (''start_time'', PStr (isoformat B (start_time srv))),
           (''uptime_seconds'', PFloat (total_seconds B (clk 0 - start_time srv))),
           (''request_count'', PInt (request_count srv)),
           (''python_version'', PStr (python_version B)),
           (''timestamp'', PStr (isoformat B (clk 1)))] @
          (if py_truthy (dict_get arguments ''include_tools'' (PBool True))
           then [(''tools'', PList (map tool_summary get_all_tools))] else []))"
  using assms by (simp add: build_debug_info_def Let_def)

text \<open>
  C8. The divisor of the average is \<open>max(1, minutes)\<close>: the int 1 unless the minutes
  exceed 1, and never zero. So the average is the quotient of the uptime by 60, then the
  quotient of the request count by that divisor, and it fails only when the runtime
  cannot represent a quotient (an \<open>OverflowError\<close>); \<open>handle_debug_info\<close> never raises
  a \<open>ZeroDivisionError\<close>, for every request count and uptime. The text of the handler
  is the header followed by \<open>json.dumps\<close> of the dict it builds, and it raises what the
  building raises. With statistics requested and both quotients present, that dict is
  the six entries of the server, the tools when requested, and the statistics with the
  number of tools and the average; without statistics it is the same dict less the
  statistics, and the handler always returns.
\<close>

theorem debug_info_divisor:
  "\<not> num_is_zero (py_max 1 x)
   \<and> py_max 1 x = (if float_gt_int x 1 then NFloat x else NInt 1)
   \<and> avg_requests_per_minute B n uptime =
       (case quotient B (NFloat uptime) (NInt 60) of
          Inl msg \<Rightarrow> Inl (PyExc OverflowError msg)
        | Inr minutes \<Rightarrow>
            (case quotient B (NInt n) (py_max 1 minutes) of
               Inl msg \<Rightarrow> Inl (PyExc OverflowError msg)
             | Inr q \<Rightarrow> Inr q))
   \<and> (\<forall>m. handle_debug_info B clk arguments srv \<noteq> Inl (PyExc ZeroDivisionError m))
   \<and> handle_debug_info B clk arguments srv =
       (case build_debug_info B clk arguments srv of
          Inl e \<Rightarrow> Inl e
        | Inr d \<Rightarrow>
            Inr ([CHR 0xF0, CHR 0x9F, CHR 0x94, CHR 0x8D] @ '' MCP Server Debug Information'' @
                 [CHR 0x0A, CHR 0x0A] @ json_dumps B (PDict d)))
   \<and> (\<forall>e. py_truthy (dict_get arguments ''include_stats'' (PBool True)) \<and>
          avg_requests_per_minute B (request_count srv)
            (total_seconds B (clk 0 - start_time srv)) = Inl e \<longrightarrow>
          build_debug_info B clk arguments srv = Inl e)
   \<and> (\<forall>minutes q.
         py_truthy (dict_get arguments ''include_stats'' (PBool True)) \<and>
         quotient B (NFloat (total_seconds B (clk 0 - start_time srv))) (NInt 60) = Inr minutes \<and>
         quotient B (NInt (request_count srv)) (py_max 1 minutes) = Inr q \<longrightarrow>
         build_debug_info B clk arguments srv =
           Inr ([(''server_name'', PStr (server_name srv)),
                 (''start_time'', PStr (isoformat B (start_time srv))),
                 (''uptime_seconds'', PFloat (total_seconds B (clk 0 - start_time srv))),
                 (''request_count'', PInt (request_count srv)),
                 (''python_version'', PStr (python_version B)),
                 (''timestamp'', PStr (isoformat B (clk 1)))] @
                (if py_truthy (dict_get arguments ''include_tools'' (PBool True))
                 then [(''tools'', PList (map tool_summary get_all_tools))] else []) @
                [(''statistics'',
                  PDict [(''tools_available'',
                          PInt (if py_truthy (dict_get arguments ''include_tools'' (PBool True))
                                then 5 else 0)),
                         (''avg_requests_per_minute'', PFloat q)])]))
   \<and> (\<not> py_truthy (dict_get arguments ''include_stats'' (PBool True)) \<longrightarrow>
         build_debug_info B clk arguments srv =
           Inr ([(''server_name'', PStr (server_name srv)),
                 (''start_time'', PStr (isoformat B (start_time srv))),
                 (''uptime_seconds'', PFloat (total_seconds B (clk 0 - start_time srv))),
                 (''request_count'', PInt (request_count srv)),
                 (''python_version'', PStr (python_version B)),
                 (''timestamp'', PStr (isoformat B (clk 1)))] @
                (if py_truthy (dict_get arguments ''include_tools'' (PBool True))
                 then [(''tools'', PList (map tool_summary get_all_tools))] else [])))"
proof (intro conjI allI impI)
  show "\<not> num_is_zero (py_max 1 x)" by (rule py_max_nonzero)
  show "py_max 1 x = (if float_gt_int x 1 then NFloat x else NInt 1)" by (rule py_max_clamp)
  show "avg_requests_per_minute B n uptime =
       (case quotient B (NFloat uptime) (NInt 60) of
          Inl msg \<Rightarrow> Inl (PyExc OverflowError msg)
        | Inr minutes \<Rightarrow>
            (case quotient B (NInt n) (py_max 1 minutes) of
               Inl msg \<Rightarrow> Inl (PyExc OverflowError msg)
             | Inr q \<Rightarrow> Inr q))"
    by (rule avg_eq)
  show "handle_debug_info B clk arguments srv \<noteq> Inl (PyExc ZeroDivisionError m)" for m
    by (rule debug_info_not_zerodiv)
  show "handle_debug_info B clk arguments srv =
       (case build_debug_info B clk arguments srv of
          Inl e \<Rightarrow> Inl e
        | Inr d \<Rightarrow>
            Inr ([CHR 0xF0, CHR 0x9F, CHR 0x94, CHR 0x8D] @ '' MCP Server Debug Information'' @
                 [CHR 0x0A, CHR 0x0A] @ json_dumps B (PDict d)))"
    by (rule handle_debug_info_format)
next
  fix e
  assume "py_truthy (dict_get arguments ''include_stats'' (PBool True)) \<and>
          avg_requests_per_minute B (request_count srv)
            (total_seconds B (clk 0 - start_time srv)) = Inl e"
  then show "build_debug_info B clk arguments srv = Inl e"
    using build_debug_info_stats_fail [where B = B and clk = clk and srv = srv
      and arguments = arguments and e = e]
    by blast
next
  fix minutes q
  assume "py_truthy (dict_get arguments ''include_stats'' (PBool True)) \<and>
         quotient B (NFloat (total_seconds B (clk 0 - start_time srv))) (NInt 60) = Inr minutes \<and>
         quotient B (NInt (request_count srv)) (py_max 1 minutes) = Inr q"
  then show "build_debug_info B clk arguments srv =
           Inr ([(''server_name'', PStr (server_name srv)),
                 (''start_time'', PStr (isoformat B (start_time srv))),
                 (''uptime_seconds'', PFloat (total_seconds B (clk 0 - start_time srv))),
                 (''request_count'', PInt (request_count srv)),
                 (''python_version'', PStr (python_version B)),
                 (''timestamp'', PStr (isoformat B (clk 1)))] @
                (if py_truthy (dict_get arguments ''include_tools'' (PBool True))
                 then [(''tools'', PList (map tool_summary get_all_tools))] else []) @
                [(''statistics'',
                  PDict [(''tools_available'',
                          PInt (if py_truthy (dict_get arguments ''include_tools'' (PBool True))
                                then 5 else 0)),
                         (''avg_requests_per_minute'', PFloat q)])])"
    using build_debug_info_stats_exact [where B = B and clk = clk and srv = srv
      and arguments = arguments and minutes = minutes and q = q]
    by blast
next
  assume "\<not> py_truthy (dict_get arguments ''include_stats'' (PBool True))"
  then show "build_debug_info B clk arguments srv =
           Inr ([(''server_name'', PStr (server_name srv)),
                 (''start_time'', PStr (isoformat B (start_time srv))),
                 (''uptime_seconds'', PFloat (total_seconds B (clk 0 - start_time srv))),
                 (''request_count'', PInt (request_count srv)),
                 (''python_version'', PStr (python_version B)),
                 (''timestamp'', PStr (isoformat B (clk 1)))] @
                (if py_truthy (dict_get arguments ''include_tools'' (PBool True))
                 then [(''tools'', PList (map tool_summary get_all_tools))] else []))"
    by (rule build_debug_info_no_stats_exact)
qed

theorem debug_info_divisor_witness:
  "quotient example_runtime
      (NFloat (total_seconds example_runtime
         (example_clock 0 - start_time (example_server\<lparr>start_time := 1704110400000000, request_count := 3\<rparr>))))
      (NInt 60) = Inr (Finite 0)
   \<and> py_max 1 (Finite 0) = NInt 1
   \<and> quotient example_runtime
        (NInt (request_count (example_server\<lparr>start_time := 1704110400000000, request_count := 3\<rparr>)))
        (py_max 1 (Finite 0)) = Inr (Finite 3)
   \<and> py_truthy (dict_get ([] :: pydict) ''include_stats'' (PBool True))
   \<and> build_debug_info example_runtime example_clock []
        (example_server\<lparr>start_time := 1704110400000000, request_count := 3\<rparr>) =
       Inr [(''server_name'', PStr ''simple-mcp-debug''),
            (''start_time'', PStr ''2024-01-01T12:00:00''),
            (''uptime_seconds'', PFloat (Finite 0)),
            (''request_count'', PInt 3),
            (''python_version'', PStr ''3.11.0''),
            (''timestamp'', PStr ''2024-01-01T12:00:00''),
            (''tools'', PList (map tool_summary get_all_tools)),
            (''statistics'',
             PDict [(''tools_available'', PInt 5),
                    (''avg_requests_per_minute'', PFloat (Finite 3))])]
   \<and> handle_debug_info example_runtime example_clock []
        (example_server\<lparr>start_time := 1704110400000000, request_count := 3\<rparr>) =
       Inr ([CHR 0xF0, CHR 0x9F, CHR 0x94, CHR 0x8D] @ '' MCP Server Debug Information'' @
            [CHR 0x0A, CHR 0x0A] @ ''{}'')
   \<and> quotient example_runtime
        (NFloat (total_seconds example_runtime
           (example_clock 0 - start_time (example_server\<lparr>request_count := 3\<rparr>))))
        (NInt 60) = Inr (Finite 2)
   \<and> py_max 1 (Finite 2) = NFloat (Finite 2)
   \<and> quotient example_runtime (NInt (request_count (example_server\<lparr>request_count := 3\<rparr>)))
        (py_max 1 (Finite 2)) = Inr (Finite (3 / 2))
   \<and> build_debug_info example_runtime example_clock [(''include_tools'', PBool False)]
        (example_server\<lparr>request_count := 3\<rparr>) =
       Inr [(''server_name'', PStr ''simple-mcp-debug''),
            (''start_time'', PStr ''2024-01-01T12:00:00''),
            (''uptime_seconds'', PFloat (Finite 120)),
            (''request_count'', PInt 3),
            (''python_version'', PStr ''3.11.0''),
            (''timestamp'', PStr ''2024-01-01T12:00:00''),
            (''statistics'',
             PDict [(''tools_available'', PInt 0),
                    (''avg_requests_per_minute'', PFloat (Finite (3 / 2)))])]
   \<and> \<not> py_truthy (dict_get [(''include_stats'', PBool False)] ''include_stats'' (PBool True))
   \<and> build_debug_info example_runtime example_clock [(''include_stats'', PBool False)]
        (example_server\<lparr>request_count := 3\<rparr>) =
       Inr [(''server_name'', PStr ''simple-mcp-debug''),
            (''start_time'', PStr ''2024-01-01T12:00:00''),
            (''uptime_seconds'', PFloat (Finite 120)),
            (''request_count'', PInt 3),
            (''python_version'', PStr ''3.11.0''),
            (''timestamp'', PStr ''2024-01-01T12:00:00''),
            (''tools'', PList (map tool_summary get_all_tools))]"
proof -
  let ?R = example_runtime
  let ?Z = "example_server\<lparr>start_time := 1704110400000000, request_count := 3\<rparr>"
  let ?S = "example_server\<lparr>request_count := 3\<rparr>"
  have m0: "py_max 1 (Finite 0) = NInt 1" and m2: "py_max 1 (Finite 2) = NFloat (Finite 2)"
    by (simp_all add: py_max_def)
  have a0: "quotient ?R (NFloat (total_seconds ?R (example_clock 0 - start_time ?Z))) (NInt 60) =
              Inr (Finite 0)"
    by (simp add: example_runtime_def example_clock_def)
  have b0: "quotient ?R (NInt (request_count ?Z)) (py_max 1 (Finite 0)) = Inr (Finite 3)"
    by (simp add: m0 example_runtime_def)
  have a2: "quotient ?R (NFloat (total_seconds ?R (example_clock 0 - start_time ?S))) (NInt 60) =
              Inr (Finite 2)"
    by (simp add: example_runtime_def example_clock_def example_server_def init_def)
  have b2: "quotient ?R (NInt (request_count ?S)) (py_max 1 (Finite 2)) = Inr (Finite (3 / 2))"
    by (simp add: m2 example_runtime_def)
  have t: "py_truthy (dict_get ([] :: pydict) ''include_stats'' (PBool True))"
    and t': "py_truthy (dict_get [(''include_tools'', PBool False)] ''include_stats'' (PBool True))"
    and f: "\<not> py_truthy (dict_get [(''include_stats'', PBool False)] ''include_stats'' (PBool True))"
    by (simp_all add: dict_get_def)
  note w0 = debug_info_divisor [where B = ?R and clk = example_clock and arguments = "[]"
      and srv = ?Z and x = "Finite 0" and n = 3 and uptime = "Finite 0"]
  note w2 = debug_info_divisor [where B = ?R and clk = example_clock
      and arguments = "[(''include_tools'', PBool False)]"
      and srv = ?S and x = "Finite 2" and n = 3 and uptime = "Finite 120"]
  note w3 = debug_info_divisor [where B = ?R and clk = example_clock
      and arguments = "[(''include_stats'', PBool False)]"
      and srv = ?S and x = "Finite 2" and n = 3 and uptime = "Finite 120"]
  from w0 t a0 b0 have "build_debug_info ?R example_clock [] ?Z =
           Inr ([(''server_name'', PStr (server_name ?Z)),
                 (''start_time'', PStr (isoformat ?R (start_time ?Z))),
                 (''uptime_seconds'', PFloat (total_seconds ?R (example_clock 0 - start_time ?Z))),
                 (''request_count'', PInt (request_count ?Z)),
                 (''python_version'', PStr (python_version ?R)),
                 (''timestamp'', PStr (isoformat ?R (example_clock 1)))] @
                (if py_truthy (dict_get ([] :: pydict) ''include_tools'' (PBool True))
                 then [(''tools'', PList (map tool_summary get_all_tools))] else []) @
                [(''statistics'',
                  PDict [(''tools_available'',
                          PInt (if py_truthy (dict_get ([] :: pydict) ''include_tools'' (PBool True))
                                then 5 else 0)),
                         (''avg_requests_per_minute'', PFloat (Finite 3))])])"
    by blast
  then have r0: "build_debug_info ?R example_clock [] ?Z =
       Inr [(''server_name'', PStr ''simple-mcp-debug''),
            (''start_time'', PStr ''2024-01-01T12:00:00''),
            (''uptime_seconds'', PFloat (Finite 0)),
            (''request_count'', PInt 3),
            (''python_version'', PStr ''3.11.0''),
            (''timestamp'', PStr ''2024-01-01T12:00:00''),
            (''tools'', PList (map tool_summary get_all_tools)),
            (''statistics'',
             PDict [(''tools_available'', PInt 5),
                    (''avg_requests_per_minute'', PFloat (Finite 3))])]"
    by (simp add: dict_get_def example_runtime_def example_clock_def example_server_def init_def)
  from w0 have "handle_debug_info ?R example_clock [] ?Z =
       (case build_debug_info ?R example_clock [] ?Z of
          Inl e \<Rightarrow> Inl e
        | Inr d \<Rightarrow>
            Inr ([CHR 0xF0, CHR 0x9F, CHR 0x94, CHR 0x8D] @ '' MCP Server Debug Information'' @
                 [CHR 0x0A, CHR 0x0A] @ json_dumps ?R (PDict d)))"
    by blast
  then have h0: "handle_debug_info ?R example_clock [] ?Z =
       Inr ([CHR 0xF0, CHR 0x9F, CHR 0x94, CHR 0x8D] @ '' MCP Server Debug Information'' @
            [CHR 0x0A, CHR 0x0A] @ ''{}'')"
    unfolding r0 by (simp add: example_runtime_def)
  from w2 t' a2 b2 have "build_debug_info ?R example_clock [(''include_tools'', PBool False)] ?S =
           Inr ([(''server_name'', PStr (server_name ?S)),
                 (''start_time'', PStr (isoformat ?R (start_time ?S))),
                 (''uptime_seconds'', PFloat (total_seconds ?R (example_clock 0 - start_time ?S))),
                 (''request_count'', PInt (request_count ?S)),
                 (''python_version'', PStr (python_version ?R)),
                 (''timestamp'', PStr (isoformat ?R (example_clock 1)))] @
                (if py_truthy (dict_get [(''include_tools'', PBool False)] ''include_tools'' (PBool True))
                 then [(''tools'', PList (map tool_summary get_all_tools))] else []) @
                [(''statistics'',
                  PDict [(''tools_available'',
                          PInt (if py_truthy (dict_get [(''include_tools'', PBool False)] ''include_tools'' (PBool True))
                                then 5 else 0)),
                         (''avg_requests_per_minute'', PFloat (Finite (3 / 2)))])])"
    by blast
  then have r2: "build_debug_info ?R example_clock [(''include_tools'', PBool False)] ?S =
       Inr [(''server_name'', PStr ''simple-mcp-debug''),
            (''start_time'', PStr ''2024-01-01T12:00:00''),
            (''uptime_seconds'', PFloat (Finite 120)),
            (''request_count'', PInt 3),
            (''python_version'', PStr ''3.11.0''),
            (''timestamp'', PStr ''2024-01-01T12:00:00''),
            (''statistics'',
             PDict [(''tools_available'', PInt 0),
                    (''avg_requests_per_minute'', PFloat (Finite (3 / 2)))])]"
    by (simp add: dict_get_def example_runtime_def example_clock_def example_server_def init_def)
  from w3 f have "build_debug_info ?R example_clock [(''include_stats'', PBool False)] ?S =
           Inr ([(''server_name'', PStr (server_name ?S)),
                 (''start_time'', PStr (isoformat ?R (start_time ?S))),
                 (''uptime_seconds'', PFloat (total_seconds ?R (example_clock 0 - start_time ?S))),
                 (''request_count'', PInt (request_count ?S)),
                 (''python_version'', PStr (python_version ?R)),
                 (''timestamp'', PStr (isoformat ?R (example_clock 1)))] @
                (if py_truthy (dict_get [(''include_stats'', PBool False)] ''include_tools'' (PBool True))
                 then [(''tools'', PList (map tool_summary get_all_tools))] else []))"
    by blast
  then have r3: "build_debug_info ?R example_clock [(''include_stats'', PBool False)] ?S =
       Inr [(''server_name'', PStr ''simple-mcp-debug''),
            (''start_time'', PStr ''2024-01-01T12:00:00''),
            (''uptime_seconds'', PFloat (Finite 120)),
            (''request_count'', PInt 3),
            (''python_version'', PStr ''3.11.0''),
            (''timestamp'', PStr ''2024-01-01T12:00:00''),
            (''tools'', PList (map tool_summary get_all_tools))]"
    by (simp add: dict_get_def example_runtime_def example_clock_def example_server_def init_def)
  from a0 m0 b0 t r0 h0 a2 m2 b2 r2 f r3 show ?thesis by blast
qed

end
